theory Spec2Isabelle
  imports Complex_Main "HOL-Library.Word"
begin

section \<open>Strings\<close>

text \<open>
  A JavaScript string is a sequence of 16-bit code units. The registry of
  \<^verbatim>\<open>currency-config.js\<close> holds symbols outside Latin-1 (the euro sign is
  U+20AC), so strings are lists of 16-bit words; \<open>str\<close> embeds an ASCII literal.
\<close>

type_synonym jschar = "16 word"
type_synonym jsstring = "jschar list"

definition str :: "string \<Rightarrow> jsstring" where
  "str s = map of_char s"

text \<open>\<^verbatim>\<open>!s\<close> and \<^verbatim>\<open>s || d\<close> on a value that is a string or \<^verbatim>\<open>null\<close>:
  \<^verbatim>\<open>null\<close> and the empty string are falsy.\<close>

fun truthy :: "jsstring option \<Rightarrow> bool" where
  "truthy None = False"
| "truthy (Some s) = (s \<noteq> [])"

fun or_else :: "jsstring option \<Rightarrow> jsstring \<Rightarrow> jsstring" where
  "or_else None d = d"
| "or_else (Some s) d = (if s \<noteq> [] then s else d)"

fun starts_with :: "jsstring \<Rightarrow> jsstring \<Rightarrow> bool" where
  "starts_with [] s = True"
| "starts_with (p # ps) [] = False"
| "starts_with (p # ps) (c # cs) = (p = c \<and> starts_with ps cs)"

text \<open>\<^verbatim>\<open>String.prototype.includes\<close>.\<close>

fun includes_str :: "jsstring \<Rightarrow> jsstring \<Rightarrow> bool" where
  "includes_str [] needle = (needle = [])"
| "includes_str (c # cs) needle = (starts_with needle (c # cs) \<or> includes_str cs needle)"

section \<open>Numbers\<close>

text \<open>
  A JavaScript Number is an IEEE 754 binary64 value. \<open>Finite m e\<close> is the
  value \<open>m * 2 ^ e\<close>; the two zeros are not told apart, since nothing in the
  program observes the sign of a zero (\<^verbatim>\<open>toFixed\<close> prints both as \<^verbatim>\<open>0.00\<close>).
  \<open>Infinite neg\<close> is \<^verbatim>\<open>-Infinity\<close> when \<open>neg\<close> holds.
\<close>

datatype number = NaN | Infinite bool | Finite int int

function bit_length :: "int \<Rightarrow> nat" where
  "bit_length n = (if n \<le> 0 then 0 else Suc (bit_length (n div 2)))"
  by pat_completeness auto
termination
  by (relation "measure nat") auto

declare bit_length.simps [simp del]

text \<open>\<open>round_half_even a b\<close> is the integer nearest to \<open>a / b\<close> for \<open>0 \<le> a\<close> and
  \<open>0 < b\<close>, the even one of two equally near.\<close>

definition round_half_even :: "int \<Rightarrow> int \<Rightarrow> int" where
  "round_half_even a b =
     (let q = a div b; r = a mod b
      in if 2 * r < b then q
         else if b < 2 * r then q + 1
         else if even q then q else q + 1)"

text \<open>\<open>floor_log2 a b\<close> is the integer \<open>l\<close> with \<open>2 ^ l \<le> a / b < 2 ^ (l + 1)\<close>,
  for positive \<open>a\<close> and \<open>b\<close>.\<close>

definition floor_log2 :: "int \<Rightarrow> int \<Rightarrow> int" where
  "floor_log2 a b =
     (let l = int (bit_length a) - int (bit_length b)
      in if (if 0 \<le> l then b * 2 ^ nat l \<le> a else b \<le> a * 2 ^ nat (- l))
         then l else l - 1)"

text \<open>
  \<open>to_double p q\<close> is the Number value for the rational \<open>p / q\<close> (\<open>0 < q\<close>):
  the nearest binary64 value, ties to the even significand, a 53-bit significand
  with exponents from \<open>-1074\<close> (subnormal numbers included), and an infinity
  from \<open>2 ^ 1024\<close> on.
\<close>

definition to_double :: "int \<Rightarrow> int \<Rightarrow> number" where
  "to_double p q =
     (if p = 0 then Finite 0 0
      else let a = \<bar>p\<bar>;
               e = max (floor_log2 a q - 52) (- 1074);
               m = (if 0 \<le> e then round_half_even a (q * 2 ^ nat e)
                    else round_half_even (a * 2 ^ nat (- e)) q)
           in if 971 < e \<or> (e = 971 \<and> 2 ^ 53 \<le> m) then Infinite (p < 0)
              else Finite (if p < 0 then - m else m) e)"

text \<open>The product of two Numbers (\<^verbatim>\<open>*\<close>): exact, then rounded.\<close>

fun mul :: "number \<Rightarrow> number \<Rightarrow> number" where
  "mul NaN y = NaN"
| "mul x NaN = NaN"
| "mul (Infinite s) (Infinite t) = Infinite (s \<noteq> t)"
| "mul (Infinite s) (Finite m e) = (if m = 0 then NaN else Infinite (s \<noteq> (m < 0)))"
| "mul (Finite m e) (Infinite t) = (if m = 0 then NaN else Infinite ((m < 0) \<noteq> t))"
| "mul (Finite m e) (Finite n f) =
     (if 0 \<le> e + f then to_double (m * n * 2 ^ nat (e + f)) 1
      else to_double (m * n) (2 ^ nat (- (e + f))))"

fun isNaN :: "number \<Rightarrow> bool" where
  "isNaN NaN = True"
| "isNaN x = False"

subsection \<open>Numbers to strings\<close>

definition digit_char :: "int \<Rightarrow> jschar" where
  "digit_char d = word_of_int (48 + d)"

text \<open>The decimal digits of a natural number, most significant first.\<close>

function digits :: "int \<Rightarrow> jsstring" where
  "digits n = (if n < 10 then [digit_char n] else digits (n div 10) @ [digit_char (n mod 10)])"
  by pat_completeness auto
termination
  by (relation "measure nat") auto

declare digits.simps [simp del]

text \<open>
  \<^verbatim>\<open>Number::toString\<close> for a finite value \<open>a / b\<close> of at least \<open>10 ^ 21\<close>: the
  shortest decimal \<open>s * 10 ^ (n - k)\<close> (\<open>k\<close> digits) whose Number value is the
  given one, the nearest to it of two candidates, printed as
  \<^verbatim>\<open>d.ddde+x\<close>. \<open>shortest_decimal\<close> tries \<open>k = 1, 2, ...\<close>; seventeen digits
  always suffice for a binary64 value.
\<close>

fun shortest_decimal :: "nat \<Rightarrow> nat \<Rightarrow> nat \<Rightarrow> int \<Rightarrow> int \<Rightarrow> int" where
  "shortest_decimal fuel k n a b =
     (let u = 10 ^ (n - k);
          lo = (a div (b * u)) * u;
          hi = lo + u;
          ok_lo = (to_double lo 1 = to_double a b);
          ok_hi = (to_double hi 1 = to_double a b)
      in if ok_lo \<and> ok_hi
         then (if \<bar>lo * b - a\<bar> < \<bar>hi * b - a\<bar> then lo
               else if \<bar>hi * b - a\<bar> < \<bar>lo * b - a\<bar> then hi
               else if even (lo div u) then lo else hi)
         else if ok_lo then lo
         else if ok_hi then hi
         else (case fuel of 0 \<Rightarrow> lo | Suc f \<Rightarrow> shortest_decimal f (Suc k) n a b))"

declare shortest_decimal.simps [simp del]

definition strip_zeros :: "jsstring \<Rightarrow> jsstring" where
  "strip_zeros ds = rev (dropWhile (\<lambda>c. c = 0x30) (rev ds))"

definition exponential :: "int \<Rightarrow> jsstring" where
  "exponential v =
     (let ds = digits v; sig = strip_zeros ds
      in take 1 sig @ (if 1 < length sig then str ''.'' @ drop 1 sig else [])
         @ str ''e+'' @ digits (int (length ds) - 1))"

definition to_string_big :: "int \<Rightarrow> int \<Rightarrow> jsstring" where
  "to_string_big a b = exponential (shortest_decimal 16 1 (length (digits (a div b))) a b)"

text \<open>
  \<^verbatim>\<open>Number.prototype.toFixed\<close> with two fraction digits: a value that is not
  finite prints as such; the sign is taken off; from \<open>10 ^ 21\<close> on the result is
  \<^verbatim>\<open>ToString\<close> of the value; otherwise \<open>n\<close> is the integer nearest to
  \<open>100 * x\<close>, the larger of two equally near, printed with at least three digits
  and a point before the last two.
\<close>

fun toFixed :: "number \<Rightarrow> jsstring" where
  "toFixed NaN = str ''NaN''"
| "toFixed (Infinite neg) = (if neg then str ''-Infinity'' else str ''Infinity'')"
| "toFixed (Finite m e) =
     (let s = (if m < 0 then str ''-'' else []);
          a = (if 0 \<le> e then \<bar>m\<bar> * 2 ^ nat e else \<bar>m\<bar>);
          b = (if 0 \<le> e then 1 else 2 ^ nat (- e))
      in if 10 ^ 21 * b \<le> a then s @ to_string_big a b
         else let n = (200 * a + b) div (2 * b);
                  ds = digits n;
                  ds' = replicate (3 - length ds) 0x30 @ ds
              in s @ take (length ds' - 2) ds' @ str ''.'' @ drop (length ds' - 2) ds')"

section \<open>The currency registry\<close>

record currency =
  symbol :: jsstring
  name :: jsstring
  rate :: number
  position :: jsstring

text \<open>The table \<^verbatim>\<open>currencies\<close>; a rate is the Number value of its decimal
  literal. The symbols are U+0024, U+20AC, U+00A3, \<^verbatim>\<open>R\<close> and U+00A5.\<close>

definition registry :: "(jsstring \<times> currency) list" where
  "registry =
     [(str ''USD'', \<lparr>symbol = [0x24], name = str ''US Dollar'',
                     rate = to_double 1 1, position = str ''before''\<rparr>),
      (str ''EUR'', \<lparr>symbol = [0x20AC], name = str ''Euro'',
                     rate = to_double 85 100, position = str ''before''\<rparr>),
      (str ''GBP'', \<lparr>symbol = [0xA3], name = str ''British Pound'',
                     rate = to_double 73 100, position = str ''before''\<rparr>),
      (str ''ZAR'', \<lparr>symbol = str ''R'', name = str ''South African Rand'',
                     rate = to_double 145 10, position = str ''before''\<rparr>),
      (str ''JPY'', \<lparr>symbol = [0xA5], name = str ''Japanese Yen'',
                     rate = to_double 110 1, position = str ''before''\<rparr>)]"

text \<open>
  \<^verbatim>\<open>this.currencies[code]\<close> is a property read on an object literal: an own
  entry of the table, else a member inherited from \<^verbatim>\<open>Object.prototype\<close> (a
  function, or the prototype object itself for \<^verbatim>\<open>__proto__\<close>), else
  \<^verbatim>\<open>undefined\<close>. Of an inherited member only its \<^verbatim>\<open>name\<close> property can be
  defined; its \<^verbatim>\<open>rate\<close>, \<^verbatim>\<open>symbol\<close> and \<^verbatim>\<open>position\<close> are \<^verbatim>\<open>undefined\<close>.
\<close>

datatype member = Undefined | Entry currency | Inherited "jsstring option"

definition prototype_functions :: "jsstring list" where
  "prototype_functions =
     map str [''hasOwnProperty'', ''isPrototypeOf'', ''propertyIsEnumerable'',
              ''toLocaleString'', ''toString'', ''valueOf'', ''__defineGetter__'',
              ''__defineSetter__'', ''__lookupGetter__'', ''__lookupSetter__'']"

definition currencies :: "jsstring \<Rightarrow> member" where
  "currencies c =
     (case map_of registry c of
        Some e \<Rightarrow> Entry e
      | None \<Rightarrow>
          if c = str ''constructor'' then Inherited (Some (str ''Object''))
          else if c \<in> set prototype_functions then Inherited (Some c)
          else if c = str ''__proto__'' then Inherited None
          else Undefined)"

text \<open>Property reads on a defined member; \<open>None\<close> is \<^verbatim>\<open>undefined\<close>.\<close>

fun get_rate :: "member \<Rightarrow> number option" where
  "get_rate (Entry c) = Some (rate c)"
| "get_rate m = None"

fun get_symbol :: "member \<Rightarrow> jsstring option" where
  "get_symbol (Entry c) = Some (symbol c)"
| "get_symbol m = None"

fun get_position :: "member \<Rightarrow> jsstring option" where
  "get_position (Entry c) = Some (position c)"
| "get_position m = None"

fun get_name :: "member \<Rightarrow> jsstring option" where
  "get_name (Entry c) = Some (name c)"
| "get_name (Inherited n) = n"
| "get_name Undefined = None"

text \<open>\<^verbatim>\<open>undefined\<close> as an operand of \<^verbatim>\<open>*\<close> is \<^verbatim>\<open>NaN\<close>; in a template
  literal or a concatenation it is the string \<^verbatim>\<open>undefined\<close>.\<close>

fun to_number :: "number option \<Rightarrow> number" where
  "to_number None = NaN"
| "to_number (Some x) = x"

fun to_string :: "jsstring option \<Rightarrow> jsstring" where
  "to_string None = str ''undefined''"
| "to_string (Some s) = s"

section \<open>The preference store\<close>

text \<open>
  \<^verbatim>\<open>localStorage\<close> and \<^verbatim>\<open>sessionStorage\<close> map keys to strings
  (\<^verbatim>\<open>getItem\<close> gives \<^verbatim>\<open>null\<close> for a missing key), \<^verbatim>\<open>document.cookie\<close> is a
  string. \<open>events\<close> is the list of \<^verbatim>\<open>currencyChanged\<close> events dispatched on
  \<^verbatim>\<open>window\<close>, newest last, each with the code in its \<^verbatim>\<open>detail\<close>.
\<close>

record env =
  localStorage :: "jsstring \<rightharpoonup> jsstring"
  sessionStorage :: "jsstring \<rightharpoonup> jsstring"
  cookie :: jsstring
  events :: "jsstring list"

definition defaultCurrency :: jsstring where
  "defaultCurrency = str ''USD''"

definition storageKey :: jsstring where
  "storageKey = str ''userCurrencyPreference''"

definition checkIfUserIsLoggedIn :: "env \<Rightarrow> bool" where
  "checkIfUserIsLoggedIn s =
     (truthy (localStorage s (str ''authToken'')) \<or>
      truthy (sessionStorage s (str ''userLoggedIn'')) \<or>
      includes_str (cookie s) (str ''user_session''))"

definition getUserCurrency :: "env \<Rightarrow> jsstring" where
  "getUserCurrency s =
     (let isLoggedIn = checkIfUserIsLoggedIn s;
          storedCurrency = localStorage s storageKey
      in if \<not> truthy storedCurrency \<and> isLoggedIn
         then or_else (sessionStorage s storageKey) defaultCurrency
         else or_else storedCurrency defaultCurrency)"

text \<open>\<open>layered_spec\<close> is the resolution order in the words of the
  specification: the session-scoped value over the persisted one, the registry
  default last.\<close>

definition layered_spec :: "env \<Rightarrow> jsstring" where
  "layered_spec s =
     (if truthy (sessionStorage s storageKey) then the (sessionStorage s storageKey)
      else if truthy (localStorage s storageKey) then the (localStorage s storageKey)
      else defaultCurrency)"

text \<open>\<^verbatim>\<open>setUserCurrency\<close>: the result and the state after the call.
  \<^verbatim>\<open>console.error\<close> and \<^verbatim>\<open>saveToServer\<close> (whose body is commented out)
  change nothing.\<close>

definition setUserCurrency :: "env \<Rightarrow> jsstring \<Rightarrow> bool \<times> env" where
  "setUserCurrency s currencyCode =
     (if currencies currencyCode = Undefined then (False, s)
      else let s1 = s\<lparr>localStorage := (localStorage s)(storageKey \<mapsto> currencyCode)\<rparr>;
               s2 = (if checkIfUserIsLoggedIn s1
                     then s1\<lparr>sessionStorage := (sessionStorage s1)(storageKey \<mapsto> currencyCode)\<rparr>
                     else s1)
           in (True, s2\<lparr>events := events s2 @ [currencyCode]\<rparr>))"

section \<open>Formatting and conversion\<close>

datatype error = TypeError

fun is_digit :: "jschar \<Rightarrow> bool" where
  "is_digit c = (0x30 \<le> c \<and> c \<le> 0x39)"

text \<open>A word character of a regular expression: \<^verbatim>\<open>[A-Za-z0-9_]\<close>.\<close>

fun is_word :: "jschar \<Rightarrow> bool" where
  "is_word c = ((0x41 \<le> c \<and> c \<le> 0x5A) \<or> (0x61 \<le> c \<and> c \<le> 0x7A) \<or> is_digit c \<or> c = 0x5F)"

text \<open>\<^verbatim>\<open>\B\<close> between the character before a position and the one after it
  (\<open>None\<close> at either end of the string).\<close>

fun non_boundary :: "jschar option \<Rightarrow> jschar option \<Rightarrow> bool" where
  "non_boundary p n =
     ((case p of None \<Rightarrow> False | Some c \<Rightarrow> is_word c) =
      (case n of None \<Rightarrow> False | Some c \<Rightarrow> is_word c))"

text \<open>The lookahead \<^verbatim>\<open>(?=(\d{3})+(?!\d))\<close>: one or more groups of three digits,
  and no digit after the last.\<close>

fun groups_ahead :: "jsstring \<Rightarrow> bool" where
  "groups_ahead (a # b # c # rest) =
     (is_digit a \<and> is_digit b \<and> is_digit c \<and>
      (groups_ahead rest \<or> (case rest of [] \<Rightarrow> True | d # _ \<Rightarrow> \<not> is_digit d)))"
| "groups_ahead s = False"

text \<open>\<^verbatim>\<open>.replace(/\B(?=(\d{3})+(?!\d))/g, ",")\<close>: a comma goes in at every
  position where the empty match succeeds; \<open>p\<close> is the character before the
  position.\<close>

fun insert_commas :: "jschar option \<Rightarrow> jsstring \<Rightarrow> jsstring" where
  "insert_commas p [] = []"
| "insert_commas p (c # cs) =
     (if non_boundary p (Some c) \<and> groups_ahead (c # cs) then str '','' else [])
     @ c # insert_commas (Some c) cs"

text \<open>The body of \<^verbatim>\<open>formatCurrency\<close> once \<^verbatim>\<open>currency\<close> is looked up.\<close>

definition format_with :: "member \<Rightarrow> number \<Rightarrow> jsstring" where
  "format_with currency amount =
     (let formattedAmount = insert_commas None (toFixed amount)
      in if get_position currency = Some (str ''before'')
         then to_string (get_symbol currency) @ formattedAmount
         else formattedAmount @ to_string (get_symbol currency))"

definition formatCurrency :: "number \<Rightarrow> jsstring \<Rightarrow> error + jsstring" where
  "formatCurrency amount currencyCode =
     (case (case currencies currencyCode of
              Undefined \<Rightarrow> currencies defaultCurrency
            | c \<Rightarrow> c) of
        Undefined \<Rightarrow> Inl TypeError
      | currency \<Rightarrow> Inr (format_with currency amount))"

record converted =
  amount :: number
  formatted :: jsstring
  conv_symbol :: "jsstring option"
  code :: jsstring

text \<open>\<^verbatim>\<open>convertAmount\<close> reads the preference itself; \<^verbatim>\<open>currencyData.rate\<close>
  throws a \<^verbatim>\<open>TypeError\<close> when the code has no member in the table.\<close>

definition convertAmount :: "env \<Rightarrow> number \<Rightarrow> error + converted" where
  "convertAmount s amountInBase =
     (let userCurrency = getUserCurrency s;
          currencyData = currencies userCurrency
      in case currencyData of
           Undefined \<Rightarrow> Inl TypeError
         | _ \<Rightarrow>
             let convertedAmount = mul amountInBase (to_number (get_rate currencyData))
             in (case formatCurrency convertedAmount userCurrency of
                   Inl e \<Rightarrow> Inl e
                 | Inr f \<Rightarrow> Inr \<lparr>amount = convertedAmount, formatted = f,
                                 conv_symbol = get_symbol currencyData,
                                 code = userCurrency\<rparr>))"

section \<open>Reading a number from a string\<close>

text \<open>White space and line terminators, as \<^verbatim>\<open>parseFloat\<close> trims them and as
  \<^verbatim>\<open>\s\<close> matches them.\<close>

fun is_space :: "jschar \<Rightarrow> bool" where
  "is_space c =
     ((0x09 \<le> c \<and> c \<le> 0x0D) \<or> c = 0x20 \<or> c = 0xA0 \<or> c = 0x1680 \<or>
      (0x2000 \<le> c \<and> c \<le> 0x200A) \<or> c = 0x2028 \<or> c = 0x2029 \<or> c = 0x202F \<or>
      c = 0x205F \<or> c = 0x3000 \<or> c = 0xFEFF)"

definition digits_value :: "jsstring \<Rightarrow> int" where
  "digits_value ds = foldl (\<lambda>acc c. 10 * acc + (uint c - 48)) 0 ds"

text \<open>The optional exponent part \<^verbatim>\<open>e\<close>, sign, digits; it counts only when
  complete.\<close>

definition exponent_part :: "jsstring \<Rightarrow> int" where
  "exponent_part s =
     (case s of
        [] \<Rightarrow> 0
      | c # r \<Rightarrow>
          if c = 0x65 \<or> c = 0x45 then
            (case r of
               [] \<Rightarrow> 0
             | d # r' \<Rightarrow>
                 if d = 0x2B then digits_value (takeWhile is_digit r')
                 else if d = 0x2D then - digits_value (takeWhile is_digit r')
                 else digits_value (takeWhile is_digit r))
          else 0)"

text \<open>The unsigned part of a \<^verbatim>\<open>StrDecimalLiteral\<close>: \<^verbatim>\<open>Infinity\<close>, or digits
  with an optional fraction and exponent; the longest prefix of that shape is
  read, and there is none when neither the integer nor the fraction part has a
  digit. The decimal value is rounded to a Number exactly, whatever the number
  of its digits.\<close>

definition unsigned_literal :: "bool \<Rightarrow> jsstring \<Rightarrow> number" where
  "unsigned_literal neg s =
     (if starts_with (str ''Infinity'') s then Infinite neg
      else let ip = takeWhile is_digit s;
               r1 = dropWhile is_digit s;
               fp = (case r1 of [] \<Rightarrow> [] | c # r \<Rightarrow> if c = 0x2E then takeWhile is_digit r else []);
               r2 = (case r1 of [] \<Rightarrow> [] | c # r \<Rightarrow> if c = 0x2E then dropWhile is_digit r else r1)
           in if ip = [] \<and> fp = [] then NaN
              else let d = digits_value (ip @ fp);
                       x = exponent_part r2 - int (length fp);
                       v = (if neg then - d else d)
                   in if 0 \<le> x then to_double (v * 10 ^ nat x) 1
                      else to_double v (10 ^ nat (- x)))"

definition parseFloat :: "jsstring \<Rightarrow> number" where
  "parseFloat s =
     (case dropWhile is_space s of
        [] \<Rightarrow> NaN
      | c # r \<Rightarrow>
          if c = 0x2B then unsigned_literal False r
          else if c = 0x2D then unsigned_literal True r
          else unsigned_literal False (c # r))"

section \<open>The price patterns\<close>

text \<open>
  \<^verbatim>\<open>\d+(\.\d{2})?\<close> at the start of a string: the digits, the fraction when it
  is there, and the rest. \<^verbatim>\<open>\d+\<close> is greedy, and giving a digit back never
  helps any of the patterns below (the next character would be a digit, where
  each of them wants a point, white space or a letter), so the first try of the
  backtracking matcher is the only one that can succeed.
\<close>

definition numeral_at :: "jsstring \<Rightarrow> (jsstring \<times> jsstring option \<times> jsstring) option" where
  "numeral_at s =
     (let ds = takeWhile is_digit s; r = dropWhile is_digit s
      in if ds = [] then None
         else (case r of
                 p # a # b # r' \<Rightarrow>
                   if p = 0x2E \<and> is_digit a \<and> is_digit b then Some (ds, Some [p, a, b], r')
                   else Some (ds, None, r)
               | _ \<Rightarrow> Some (ds, None, r)))"

text \<open>A match at the start of a string is its length and its capture groups
  (\<open>None\<close> for a group that took no part).\<close>

type_synonym matcher = "jsstring \<Rightarrow> (nat \<times> jsstring option list) option"

text \<open>\<^verbatim>\<open>/\$\d+(\.\d{2})?/\<close>, the pattern of the first replacement: one group,
  the fraction.\<close>

definition dollar_amount :: matcher where
  "dollar_amount s =
     (case s of
        [] \<Rightarrow> None
      | c # r \<Rightarrow>
          if c = 0x24 then
            (case numeral_at r of
               None \<Rightarrow> None
             | Some (ds, f, _) \<Rightarrow> Some (1 + length ds + length (case f of None \<Rightarrow> [] | Some x \<Rightarrow> x), [f]))
          else None)"

text \<open>\<^verbatim>\<open>/\$(\d+(\.\d{2})?)/\<close>, the pattern of the extraction: the numeral and
  the fraction.\<close>

definition dollar_numeral :: matcher where
  "dollar_numeral s =
     (case s of
        [] \<Rightarrow> None
      | c # r \<Rightarrow>
          if c = 0x24 then
            (case numeral_at r of
               None \<Rightarrow> None
             | Some (ds, f, _) \<Rightarrow>
                 let n = ds @ (case f of None \<Rightarrow> [] | Some x \<Rightarrow> x)
                 in Some (1 + length n, [Some n, f]))
          else None)"

text \<open>Matching without regard to case (flag \<^verbatim>\<open>i\<close>, no flag \<^verbatim>\<open>u\<close>): two
  characters match when their upper-case forms agree, and a character outside
  ASCII never matches an ASCII letter.\<close>

fun upper :: "jschar \<Rightarrow> jschar" where
  "upper c = (if 0x61 \<le> c \<and> c \<le> 0x7A then c - 0x20 else c)"

definition starts_with_ci :: "jsstring \<Rightarrow> jsstring \<Rightarrow> bool" where
  "starts_with_ci kw s = (length kw \<le> length s \<and> map upper (take (length kw) s) = map upper kw)"

text \<open>\<^verbatim>\<open>/(\d+(\.\d{2})?)\s*(dollars|USD)/i\<close>: the numeral, the fraction and
  the word as written in the text.\<close>

definition worded_amount :: matcher where
  "worded_amount s =
     (case numeral_at s of
        None \<Rightarrow> None
      | Some (ds, f, r) \<Rightarrow>
          let n = ds @ (case f of None \<Rightarrow> [] | Some x \<Rightarrow> x);
              ws = takeWhile is_space r;
              r' = dropWhile is_space r;
              k = (if starts_with_ci (str ''dollars'') r' then 7
                   else if starts_with_ci (str ''USD'') r' then 3 else 0)
          in if k = 0 then None
             else Some (length n + length ws + k, [Some n, f, Some (take k r')]))"

text \<open>\<^verbatim>\<open>text.match(re)\<close> without flag \<^verbatim>\<open>g\<close>: the leftmost match.\<close>

fun first_match :: "matcher \<Rightarrow> jsstring \<Rightarrow> (nat \<times> jsstring option list) option" where
  "first_match m [] = None"
| "first_match m (c # cs) =
     (case m (c # cs) of Some r \<Rightarrow> Some r | None \<Rightarrow> first_match m cs)"

text \<open>\<^verbatim>\<open>match[1]\<close>.\<close>

fun group1 :: "(nat \<times> jsstring option list) \<Rightarrow> jsstring option" where
  "group1 (n, g # gs) = g"
| "group1 (n, []) = None"

definition extractPriceFromText :: "jsstring \<Rightarrow> jsstring option" where
  "extractPriceFromText text =
     (case first_match dollar_numeral text of
        Some priceMatch \<Rightarrow> group1 priceMatch
      | None \<Rightarrow>
          (case first_match worded_amount text of
             Some numberMatch \<Rightarrow> group1 numberMatch
           | None \<Rightarrow> None))"

section \<open>Replacement\<close>

text \<open>
  The second argument of \<^verbatim>\<open>String.prototype.replace\<close> is a template:
  \<^verbatim>\<open>$$\<close> is a dollar sign, \<^verbatim>\<open>$&\<close> the match, \<^verbatim>\<open>$`\<close> and \<^verbatim>\<open>$'\<close> the text
  before and after it, \<^verbatim>\<open>$n\<close> and \<^verbatim>\<open>$nn\<close> the capture group of that number
  (empty when the group took no part). A two-digit number beyond the number of
  groups is read as one digit and a literal digit; a number that names no group
  stays as written. Formatted dollar amounts such as \<^verbatim>\<open>$10.00\<close> are
  templates of this kind.
\<close>

definition digit_value :: "jschar \<Rightarrow> nat" where
  "digit_value c = unat c - 48"

definition group_text :: "jsstring option list \<Rightarrow> nat \<Rightarrow> jsstring" where
  "group_text caps i = (case caps ! (i - 1) of None \<Rightarrow> [] | Some x \<Rightarrow> x)"

fun expand :: "jsstring \<Rightarrow> jsstring \<Rightarrow> jsstring \<Rightarrow> jsstring \<Rightarrow> jsstring option list \<Rightarrow> jsstring" where
  "expand [] matched pre post caps = []"
| "expand [c] matched pre post caps = [c]"
| "expand (c # d # r) matched pre post caps =
     (if c \<noteq> 0x24 then c # expand (d # r) matched pre post caps
      else if d = 0x24 then 0x24 # expand r matched pre post caps
      else if d = 0x60 then pre @ expand r matched pre post caps
      else if d = 0x26 then matched @ expand r matched pre post caps
      else if d = 0x27 then post @ expand r matched pre post caps
      else if is_digit d then
        (case r of
           [] \<Rightarrow>
             (if 1 \<le> digit_value d \<and> digit_value d \<le> length caps
              then group_text caps (digit_value d) else [c, d])
         | d2 # r2 \<Rightarrow>
             if is_digit d2 \<and> 10 * digit_value d + digit_value d2 \<le> length caps
             then (if 1 \<le> 10 * digit_value d + digit_value d2
                   then group_text caps (10 * digit_value d + digit_value d2)
                        @ expand r2 matched pre post caps
                   else c # d # d2 # expand r2 matched pre post caps)
             else (if 1 \<le> digit_value d \<and> digit_value d \<le> length caps
                   then group_text caps (digit_value d) @ expand r matched pre post caps
                   else c # d # expand r matched pre post caps))
      else c # expand (d # r) matched pre post caps)"

text \<open>
  \<^verbatim>\<open>s.replace(re, template)\<close> with flag \<^verbatim>\<open>g\<close>: the matches are found from
  left to right, each search starting where the last match ended; \<open>k\<close> counts
  the characters of the current match still to be passed over and \<open>pre\<close> is
  the text to the left of the position.
\<close>

fun replace_from :: "matcher \<Rightarrow> jsstring \<Rightarrow> nat \<Rightarrow> jsstring \<Rightarrow> jsstring \<Rightarrow> jsstring" where
  "replace_from m t k pre [] = []"
| "replace_from m t (Suc k) pre (c # cs) = replace_from m t k (pre @ [c]) cs"
| "replace_from m t 0 pre (c # cs) =
     (case m (c # cs) of
        None \<Rightarrow> c # replace_from m t 0 (pre @ [c]) cs
      | Some (n, caps) \<Rightarrow>
          expand t (take n (c # cs)) pre (drop n (c # cs)) caps
          @ replace_from m t (n - 1) (pre @ [c]) cs)"

definition replace_all :: "matcher \<Rightarrow> jsstring \<Rightarrow> jsstring \<Rightarrow> jsstring" where
  "replace_all m t s = replace_from m t 0 [] s"

section \<open>Elements\<close>

text \<open>
  An element as the program sees it: its attributes (names and values, in
  order), its class list, its \<^verbatim>\<open>innerHTML\<close> and its \<^verbatim>\<open>textContent\<close>.
  Assigning \<^verbatim>\<open>innerHTML\<close> stores the string as it is (the parser and the
  serializer of the browser are left out).
  \<^verbatim>\<open>textContent\<close> is read only from an element that has not been rewritten.
\<close>

record element =
  attrs :: "(jsstring \<times> jsstring) list"
  classList :: "jsstring list"
  innerHTML :: jsstring
  textContent :: jsstring

text \<open>\<^verbatim>\<open>getAttribute\<close> gives \<^verbatim>\<open>null\<close> (\<open>None\<close>) for a missing attribute;
  \<^verbatim>\<open>setAttribute\<close> changes the value in place or adds the attribute at the
  end.\<close>

definition getAttribute :: "element \<Rightarrow> jsstring \<Rightarrow> jsstring option" where
  "getAttribute el a = map_of (attrs el) a"

definition hasAttribute :: "element \<Rightarrow> jsstring \<Rightarrow> bool" where
  "hasAttribute el a = (getAttribute el a \<noteq> None)"

fun set_attr :: "jsstring \<Rightarrow> jsstring \<Rightarrow> (jsstring \<times> jsstring) list \<Rightarrow> (jsstring \<times> jsstring) list" where
  "set_attr a v [] = [(a, v)]"
| "set_attr a v (p # ps) = (if fst p = a then (a, v) # ps else p # set_attr a v ps)"

definition setAttribute :: "element \<Rightarrow> jsstring \<Rightarrow> jsstring \<Rightarrow> element" where
  "setAttribute el a v = el\<lparr>attrs := set_attr a v (attrs el)\<rparr>"

text \<open>\<^verbatim>\<open>parseFloat(element.getAttribute(a))\<close>: a missing attribute is
  \<^verbatim>\<open>null\<close>, which is read as the string \<^verbatim>\<open>null\<close>.\<close>

definition parseFloat_attr :: "jsstring option \<Rightarrow> number" where
  "parseFloat_attr v = parseFloat (case v of None \<Rightarrow> str ''null'' | Some x \<Rightarrow> x)"

definition updatePriceElement :: "env \<Rightarrow> element \<Rightarrow> error + element" where
  "updatePriceElement s el =
     (let basePrice = parseFloat_attr (getAttribute el (str ''data-price''))
      in if isNaN basePrice then Inr el
         else (case convertAmount s basePrice of
                 Inl e \<Rightarrow> Inl e
               | Inr conv \<Rightarrow>
                   let originalHTML = or_else (getAttribute el (str ''data-original-html'')) (innerHTML el);
                       updatedHTML =
                         replace_all worded_amount
                           (formatted conv @ str '' '' @ to_string (get_name (currencies (code conv))))
                           (replace_all dollar_amount (formatted conv) originalHTML)
                   in Inr (setAttribute (el\<lparr>innerHTML := updatedHTML\<rparr>)
                             (str ''data-currency'') (code conv))))"

text \<open>\<^verbatim>\<open>forEach\<close> over elements with \<^verbatim>\<open>updatePriceElement\<close>: an exception
  ends the loop and the caller.\<close>

fun update_each :: "env \<Rightarrow> element list \<Rightarrow> error + element list" where
  "update_each s [] = Inr []"
| "update_each s (el # els) =
     (case updatePriceElement s el of
        Inl e \<Rightarrow> Inl e
      | Inr el' \<Rightarrow> (case update_each s els of Inl e \<Rightarrow> Inl e | Inr els' \<Rightarrow> Inr (el' # els')))"

text \<open>
  \<^verbatim>\<open>processPageElements\<close> over the elements of the document in document
  order, each taken on its own. The first pass rewrites every element that has
  the attribute \<^verbatim>\<open>data-price\<close>; the second tags and rewrites the elements of
  class \<^verbatim>\<open>price\<close>, \<^verbatim>\<open>amount\<close> or \<^verbatim>\<open>cost\<close> that lack it and whose text holds a
  price.
\<close>

fun scan_tagged :: "env \<Rightarrow> element list \<Rightarrow> error + element list" where
  "scan_tagged s [] = Inr []"
| "scan_tagged s (el # els) =
     (case (if hasAttribute el (str ''data-price'') then updatePriceElement s el else Inr el) of
        Inl e \<Rightarrow> Inl e
      | Inr el' \<Rightarrow> (case scan_tagged s els of Inl e \<Rightarrow> Inl e | Inr els' \<Rightarrow> Inr (el' # els')))"

definition price_class :: "element \<Rightarrow> bool" where
  "price_class el = list_ex (\<lambda>c. c \<in> set (map str [''price'', ''amount'', ''cost''])) (classList el)"

definition tag_and_update :: "env \<Rightarrow> element \<Rightarrow> error + element" where
  "tag_and_update s el =
     (if price_class el \<and> \<not> hasAttribute el (str ''data-price'') then
        (let price = extractPriceFromText (textContent el)
         in if truthy price
            then updatePriceElement s
                   (setAttribute (setAttribute el (str ''data-price'') (the price))
                      (str ''data-original-text'') (textContent el))
            else Inr el)
      else Inr el)"

fun scan_classes :: "env \<Rightarrow> element list \<Rightarrow> error + element list" where
  "scan_classes s [] = Inr []"
| "scan_classes s (el # els) =
     (case tag_and_update s el of
        Inl e \<Rightarrow> Inl e
      | Inr el' \<Rightarrow> (case scan_classes s els of Inl e \<Rightarrow> Inl e | Inr els' \<Rightarrow> Inr (el' # els')))"

definition processPageElements :: "env \<Rightarrow> element list \<Rightarrow> error + element list" where
  "processPageElements s doc =
     (case scan_tagged s doc of Inl e \<Rightarrow> Inl e | Inr doc' \<Rightarrow> scan_classes s doc')"

section \<open>The mutation observer\<close>

datatype node = Element element "node list" | Text jsstring | Comment jsstring

text \<open>\<^verbatim>\<open>nodeType\<close>: 1 for an element, 3 for a text node, 8 for a comment.\<close>

fun nodeType :: "node \<Rightarrow> nat" where
  "nodeType (Element el cs) = 1"
| "nodeType (Text t) = 3"
| "nodeType (Comment t) = 8"

text \<open>The elements of a subtree in document order, its root first.\<close>

fun elements_of :: "node \<Rightarrow> element list" where
  "elements_of (Element el cs) = el # concat (map elements_of cs)"
| "elements_of (Text t) = []"
| "elements_of (Comment t) = []"

text \<open>\<^verbatim>\<open>node.querySelectorAll('[data-price]')\<close>: the descendants of the node
  that have the attribute.\<close>

fun query_data_price :: "node \<Rightarrow> element list" where
  "query_data_price (Element el cs) =
     filter (\<lambda>d. hasAttribute d (str ''data-price'')) (concat (map elements_of cs))"
| "query_data_price n = []"

record mutation =
  addedNodes :: "node list"

text \<open>The body of the inner \<^verbatim>\<open>forEach\<close> of the observer, for one added node;
  the result is the elements after their calls of \<^verbatim>\<open>updatePriceElement\<close>, in
  the order of the calls.\<close>

definition on_added_node :: "env \<Rightarrow> node \<Rightarrow> error + element list" where
  "on_added_node s n =
     (if nodeType n = 1 then
        (case n of
           Element el cs \<Rightarrow>
             if hasAttribute el (str ''data-price'') then update_each s [el]
             else update_each s (query_data_price n)
         | _ \<Rightarrow> Inr [])
      else Inr [])"

fun on_added_nodes :: "env \<Rightarrow> node list \<Rightarrow> error + element list" where
  "on_added_nodes s [] = Inr []"
| "on_added_nodes s (n # ns) =
     (case on_added_node s n of
        Inl e \<Rightarrow> Inl e
      | Inr r \<Rightarrow> (case on_added_nodes s ns of Inl e \<Rightarrow> Inl e | Inr rs \<Rightarrow> Inr (r @ rs)))"

fun observer_callback :: "env \<Rightarrow> mutation list \<Rightarrow> error + element list" where
  "observer_callback s [] = Inr []"
| "observer_callback s (m # ms) =
     (case on_added_nodes s (addedNodes m) of
        Inl e \<Rightarrow> Inl e
      | Inr r \<Rightarrow> (case observer_callback s ms of Inl e \<Rightarrow> Inl e | Inr rs \<Rightarrow> Inr (r @ rs)))"

section \<open>The specification's wording\<close>

text \<open>The exact value of a finite Number.\<close>

fun value_of :: "number \<Rightarrow> rat" where
  "value_of (Finite m e) = of_int m * (if 0 \<le> e then 2 ^ nat e else 1 / 2 ^ nat (- e))"
| "value_of x = 0"

text \<open>The amounts that \<^verbatim>\<open>toFixed\<close> prints in fixed notation.\<close>

fun below_1e21 :: "number \<Rightarrow> bool" where
  "below_1e21 (Finite m e) = (\<bar>value_of (Finite m e)\<bar> < 10 ^ 21)"
| "below_1e21 x = False"

text \<open>The magnitude rounded to two decimal places, in hundredths; a half
  rounds up.\<close>

definition hundredths :: "number \<Rightarrow> int" where
  "hundredths x = \<lfloor>100 * \<bar>value_of x\<bar> + 1 / 2\<rfloor>"

text \<open>A separator every three digits, counted leftwards from the decimal
  point.\<close>

fun group_rev :: "jsstring \<Rightarrow> jsstring" where
  "group_rev (a # b # c # d # r) = a # b # c # 0x2C # group_rev (d # r)"
| "group_rev ds = ds"

definition group3 :: "jsstring \<Rightarrow> jsstring" where
  "group3 ds = rev (group_rev (rev ds))"

text \<open>The separator in front of a run of digits: there is one when their
  number is a positive multiple of three.\<close>

definition sep :: "jsstring \<Rightarrow> jsstring" where
  "sep ds = (if ds \<noteq> [] \<and> 3 dvd length ds then [0x2C] else [])"

definition format_spec :: "currency \<Rightarrow> number \<Rightarrow> jsstring" where
  "format_spec cur x =
     (let h = hundredths x;
          n = (if value_of x < 0 then str ''-'' else [])
              @ group3 (digits (h div 100)) @ str ''.''
              @ [digit_char (h mod 100 div 10), digit_char (h mod 10)]
      in if position cur = str ''before'' then symbol cur @ n else n @ symbol cur)"

text \<open>A value that starts, after white space and an optional sign, with a
  decimal literal: digits, a point and a digit, or \<^verbatim>\<open>Infinity\<close>.\<close>

definition literal_start :: "jsstring \<Rightarrow> bool" where
  "literal_start s =
     (starts_with (str ''Infinity'') s \<or>
      (case s of
         [] \<Rightarrow> False
       | c # r \<Rightarrow> is_digit c \<or> (c = 0x2E \<and> (case r of [] \<Rightarrow> False | d # _ \<Rightarrow> is_digit d))))"

definition numeric_prefix :: "jsstring \<Rightarrow> bool" where
  "numeric_prefix v =
     (case dropWhile is_space v of
        [] \<Rightarrow> False
      | c # r \<Rightarrow> if c = 0x2B \<or> c = 0x2D then literal_start r else literal_start (c # r))"

text \<open>An attribute value that \<^verbatim>\<open>parseFloat\<close> cannot read: the attribute is
  missing, or its value does not start with a decimal literal.\<close>

definition unparseable :: "jsstring option \<Rightarrow> bool" where
  "unparseable a = (case a of None \<Rightarrow> True | Some v \<Rightarrow> \<not> numeric_prefix v)"

text \<open>The least position of a text where a pattern matches.\<close>

definition leftmost :: "matcher \<Rightarrow> jsstring \<Rightarrow> nat option" where
  "leftmost m t = find (\<lambda>i. m (drop i t) \<noteq> None) [0..<length t]"

definition numeral_at_leftmost :: "matcher \<Rightarrow> jsstring \<Rightarrow> jsstring option" where
  "numeral_at_leftmost m t =
     (case leftmost m t of
        None \<Rightarrow> None
      | Some i \<Rightarrow> (case m (drop i t) of None \<Rightarrow> None | Some r \<Rightarrow> group1 r))"

text \<open>Either pattern at a position, and the extraction as the specification
  words it: the first match of either pattern from the left.\<close>

definition either_pattern :: matcher where
  "either_pattern s = (case dollar_numeral s of Some r \<Rightarrow> Some r | None \<Rightarrow> worded_amount s)"

definition extract_first_of_either :: "jsstring \<Rightarrow> jsstring option" where
  "extract_first_of_either t = numeral_at_leftmost either_pattern t"

text \<open>The extraction in two steps: the leftmost symbol-prefixed numeral when
  the text has one, else the leftmost numeral followed by a currency word.\<close>

definition extract_symbol_first :: "jsstring \<Rightarrow> jsstring option" where
  "extract_symbol_first t =
     (case leftmost dollar_numeral t of
        Some i \<Rightarrow> numeral_at_leftmost dollar_numeral t
      | None \<Rightarrow> numeral_at_leftmost worded_amount t)"

text \<open>The recognition contract of the specification: an element is
  price-bearing when it has the price attribute or its text matches the
  extraction.\<close>

definition price_bearing :: "element \<Rightarrow> bool" where
  "price_bearing el =
     (hasAttribute el (str ''data-price'') \<or> extractPriceFromText (textContent el) \<noteq> None)"

text \<open>\<^verbatim>\<open>updatePriceElement\<close> was called on an element during a callback: its
  result is among the results of the calls. An added node is covered when the
  observer has called it on the node if the node has the price attribute, and
  on every descendant with the attribute if the node has none.\<close>

definition synchronized_in :: "env \<Rightarrow> element \<Rightarrow> element list \<Rightarrow> bool" where
  "synchronized_in s el rs = list_ex (\<lambda>r. updatePriceElement s el = Inr r) rs"

definition covered :: "env \<Rightarrow> node \<Rightarrow> element list \<Rightarrow> bool" where
  "covered s n rs =
     (case n of
        Element el cs \<Rightarrow>
          if hasAttribute el (str ''data-price'') then synchronized_in s el rs
          else list_all (\<lambda>d. synchronized_in s d rs) (query_data_price n)
      | _ \<Rightarrow> True)"

text \<open>Two calls in a row, the second in a state of its own; the content shown
  in the end.\<close>

definition and_then :: "error + element \<Rightarrow> env \<Rightarrow> error + element" where
  "and_then r s = (case r of Inl e \<Rightarrow> Inl e | Inr el \<Rightarrow> updatePriceElement s el)"

definition shown :: "error + element \<Rightarrow> error + jsstring" where
  "shown r = map_sum id innerHTML r"

section \<open>Sample states\<close>

definition fresh_env :: env where
  "fresh_env = \<lparr>localStorage = Map.empty, sessionStorage = Map.empty, cookie = [], events = []\<rparr>"

text \<open>A state whose persisted preference is \<open>c\<close>.\<close>

definition persisted :: "jsstring \<Rightarrow> env" where
  "persisted c = fresh_env\<lparr>localStorage := [storageKey \<mapsto> c]\<rparr>"

text \<open>A logged-in visitor (by the session cookie) whose preference is held by
  the session store only.\<close>

definition session_only :: "jsstring \<Rightarrow> env" where
  "session_only c =
     fresh_env\<lparr>sessionStorage := [storageKey \<mapsto> c], cookie := str ''user_session=1''\<rparr>"

text \<open>A state where the two stores disagree.\<close>

definition both_stores :: env where
  "both_stores =
     fresh_env\<lparr>localStorage := [storageKey \<mapsto> str ''GBP''],
               sessionStorage := [storageKey \<mapsto> str ''EUR'']\<rparr>"

text \<open>An element tagged with a base price, and an untagged one of class
  \<^verbatim>\<open>price\<close>; the content is plain text.\<close>

definition tagged :: "jsstring \<Rightarrow> jsstring \<Rightarrow> element" where
  "tagged price html =
     \<lparr>attrs = [(str ''data-price'', price)], classList = [], innerHTML = html,
      textContent = html\<rparr>"

definition labelled :: "jsstring \<Rightarrow> element" where
  "labelled html =
     \<lparr>attrs = [], classList = [str ''price''], innerHTML = html, textContent = html\<rparr>"

text \<open>A second scan of the page in another state, and the contents shown.\<close>

definition rescan :: "error + element list \<Rightarrow> env \<Rightarrow> error + element list" where
  "rescan r s = (case r of Inl e \<Rightarrow> Inl e | Inr doc \<Rightarrow> processPageElements s doc)"

definition contents :: "error + element list \<Rightarrow> error + jsstring list" where
  "contents r = map_sum id (map innerHTML) r"

text \<open>A batch with one mutation: a tagged element, a text node, and an
  untagged wrapper around a tagged element.\<close>

definition wrapper :: node where
  "wrapper = Element (labelled (str ''from $5'')) [Text (str ''from ''), Element (tagged (str ''5'') (str ''$5'')) []]"

definition batch :: "mutation list" where
  "batch = [\<lparr>addedNodes = [Element (tagged (str ''10'') (str ''$10'')) [], Text (str ''x''), wrapper]\<rparr>]"

definition batch_results :: "element list" where
  "batch_results =
     [setAttribute ((tagged (str ''10'') (str ''$10''))\<lparr>innerHTML := 0xA5 # str ''1,100.00''\<rparr>)
        (str ''data-currency'') (str ''JPY''),
      setAttribute ((tagged (str ''5'') (str ''$5''))\<lparr>innerHTML := 0xA5 # str ''550.00''\<rparr>)
        (str ''data-currency'') (str ''JPY'')]"

text \<open>Two currencies, one for each position of the symbol.\<close>

definition usd_like :: currency where
  "usd_like =
     \<lparr>symbol = str ''$'', name = str ''US Dollar'', rate = to_double 1 1,
      position = str ''before''\<rparr>"

definition krona_like :: currency where
  "krona_like =
     \<lparr>symbol = str '' kr'', name = str ''Krona'', rate = to_double 10 1,
      position = str ''after''\<rparr>"

section \<open>Preference resolution\<close>

lemma storageKey_not_authToken: "storageKey \<noteq> str ''authToken''"
  by (simp add: storageKey_def str_def)

lemma getUserCurrency_persisted:
  "c \<noteq> [] \<Longrightarrow> getUserCurrency (persisted c) = c"
  by (simp add: getUserCurrency_def persisted_def fresh_env_def)

text \<open>
  C6, as the code has it. The persisted value (\<^verbatim>\<open>localStorage\<close>) is read first
  and wins whenever it is a non-empty string; the session-scoped value is
  consulted only when the persisted one is missing and the visitor is logged in;
  the default currency is the last resort.
\<close>

theorem getUserCurrency_layers:
  "getUserCurrency s =
     (if truthy (localStorage s storageKey) then the (localStorage s storageKey)
      else if checkIfUserIsLoggedIn s \<and> truthy (sessionStorage s storageKey)
           then the (sessionStorage s storageKey)
      else defaultCurrency)"
proof (cases "localStorage s storageKey")
  case None
  then show ?thesis
    by (cases "sessionStorage s storageKey") (simp_all add: getUserCurrency_def)
next
  case (Some v)
  then show ?thesis
    by (cases "sessionStorage s storageKey") (simp_all add: getUserCurrency_def)
qed

text \<open>
  C6 as stated fails: with \<^verbatim>\<open>GBP\<close> persisted and \<^verbatim>\<open>EUR\<close> in the session store,
  the session-first order of the specification gives \<^verbatim>\<open>EUR\<close>, the code gives
  \<^verbatim>\<open>GBP\<close>.
\<close>

theorem getUserCurrency_session_first_counterexample:
  "layered_spec both_stores = str ''EUR'' \<and> getUserCurrency both_stores = str ''GBP''"
  by (simp add: layered_spec_def getUserCurrency_def both_stores_def fresh_env_def str_def)

section \<open>Setting the preference\<close>

lemma setUserCurrency_rejected:
  "currencies c = Undefined \<Longrightarrow> setUserCurrency s c = (False, s)"
  by (simp add: setUserCurrency_def)

lemma setUserCurrency_accepted:
  assumes "currencies c \<noteq> Undefined"
  shows "fst (setUserCurrency s c)"
    and "localStorage (snd (setUserCurrency s c)) storageKey = Some c"
    and "events (snd (setUserCurrency s c)) = events s @ [c]"
  using assms by (simp_all add: setUserCurrency_def Let_def)

text \<open>
  C10 at the code \<^verbatim>\<open>constructor\<close>, which is no entry of the registry: the
  guard \<^verbatim>\<open>!this.currencies[currencyCode]\<close> finds the member inherited from
  \<^verbatim>\<open>Object.prototype\<close>, so the call persists the code, dispatches the
  notification and returns \<^verbatim>\<open>true\<close>.
\<close>

theorem setUserCurrency_inherited_name:
  "map_of registry (str ''constructor'') = None \<and>
   fst (setUserCurrency fresh_env (str ''constructor'')) \<and>
   localStorage (snd (setUserCurrency fresh_env (str ''constructor''))) storageKey
     = Some (str ''constructor'') \<and>
   events (snd (setUserCurrency fresh_env (str ''constructor''))) = [str ''constructor'']"
  by (simp add: setUserCurrency_def currencies_def registry_def fresh_env_def Let_def str_def)

section \<open>Conversion\<close>

text \<open>
  C3 at the stored preference \<^verbatim>\<open>DOES_NOT_EXIST\<close>: \<^verbatim>\<open>convertAmount\<close> reads
  \<^verbatim>\<open>currencyData.rate\<close> of \<^verbatim>\<open>undefined\<close> and throws, while \<^verbatim>\<open>formatCurrency\<close>
  with the same code falls back to the default currency.
\<close>

theorem convertAmount_unknown_code_throws:
  "getUserCurrency (persisted (str ''DOES_NOT_EXIST'')) = str ''DOES_NOT_EXIST'' \<and>
   convertAmount (persisted (str ''DOES_NOT_EXIST'')) (to_double 100 1) = Inl TypeError \<and>
   formatCurrency (to_double 100 1) (str ''DOES_NOT_EXIST'') = Inr (str ''$100.00'')"
  by code_simp

text \<open>
  C4, as the code has it. \<^verbatim>\<open>convertAmount\<close> takes the base amount only and
  resolves the target code itself with \<^verbatim>\<open>getUserCurrency\<close>; it writes nothing,
  and its result depends on the stores through the resolved code alone: two
  states that resolve to the same code give the same result for the same amount.
\<close>

theorem convertAmount_same_preference:
  "getUserCurrency s = getUserCurrency s' \<Longrightarrow> convertAmount s a = convertAmount s' a"
  by (simp add: convertAmount_def)

theorem convertAmount_same_preference_witness:
  "getUserCurrency (persisted (str ''EUR'')) = getUserCurrency (session_only (str ''EUR'')) \<and>
   convertAmount (persisted (str ''EUR'')) (to_double 100 1)
     = convertAmount (session_only (str ''EUR'')) (to_double 100 1)"
proof -
  have h: "getUserCurrency (persisted (str ''EUR'')) = getUserCurrency (session_only (str ''EUR''))"
    by code_simp
  show ?thesis
    using h convertAmount_same_preference [OF h, of "to_double 100 1"] by simp
qed

text \<open>
  C4 as stated fails: the same base amount converts differently under two
  states of the preference store, so the result is not independent of it.
\<close>

theorem convertAmount_reads_store_counterexample:
  "convertAmount (persisted (str ''EUR'')) (to_double 100 1)
     \<noteq> convertAmount (persisted (str ''GBP'')) (to_double 100 1)"
  by code_simp

section \<open>Repeated synchronization\<close>

lemma map_of_set_attr:
  "map_of (set_attr a v xs) k = (if k = a then Some v else map_of xs k)"
  by (induction xs) auto

lemma set_attr_twice: "set_attr a v (set_attr a v xs) = set_attr a v xs"
  by (induction xs) auto

lemma getAttribute_setAttribute:
  "getAttribute (setAttribute el a v) k = (if k = a then Some v else getAttribute el k)"
  by (simp add: getAttribute_def setAttribute_def map_of_set_attr)

lemma getAttribute_innerHTML_update [simp]:
  "getAttribute (el\<lparr>innerHTML := h\<rparr>) k = getAttribute el k"
  by (simp add: getAttribute_def)

lemma attribute_names_differ:
  "str ''data-price'' \<noteq> str ''data-currency''"
  "str ''data-original-html'' \<noteq> str ''data-currency''"
  by (simp_all add: str_def)

text \<open>
  An element that carries a non-empty attribute \<^verbatim>\<open>data-original-html\<close> is
  rewritten from that attribute: a second call in the same state changes
  nothing, and a call after a change of preference gives what the call on the
  original element gives. The program reads the attribute but never writes it.
\<close>

lemma update_with_baseline_idempotent:
  assumes b: "getAttribute el (str ''data-original-html'') = Some h" "h \<noteq> []"
    and u: "updatePriceElement s el = Inr el'"
  shows "updatePriceElement s el' = Inr el'"
proof (cases "isNaN (parseFloat_attr (getAttribute el (str ''data-price'')))")
  case True
  then show ?thesis using u by (simp add: updatePriceElement_def)
next
  case False
  then obtain conv where c: "convertAmount s (parseFloat_attr (getAttribute el (str ''data-price''))) = Inr conv"
    using u by (auto simp add: updatePriceElement_def Let_def split: sum.splits)
  define x where "x = replace_all worded_amount
               (formatted conv @ str '' '' @ to_string (get_name (currencies (code conv))))
               (replace_all dollar_amount (formatted conv) h)"
  have el': "el' = setAttribute (el\<lparr>innerHTML := x\<rparr>) (str ''data-currency'') (code conv)"
    using u False c b by (simp add: updatePriceElement_def Let_def x_def)
  have p: "getAttribute el' (str ''data-price'') = getAttribute el (str ''data-price'')"
    and o: "getAttribute el' (str ''data-original-html'') = Some h"
    using b by (simp_all add: el' getAttribute_setAttribute attribute_names_differ)
  have "updatePriceElement s el' = Inr (setAttribute (el'\<lparr>innerHTML := x\<rparr>) (str ''data-currency'') (code conv))"
    using False c b by (simp add: updatePriceElement_def Let_def x_def p o)
  also have "setAttribute (el'\<lparr>innerHTML := x\<rparr>) (str ''data-currency'') (code conv) = el'"
    by (simp add: el' setAttribute_def set_attr_twice)
  finally show ?thesis .
qed

lemma set_attr_overwrite: "set_attr a w (set_attr a v xs) = set_attr a w xs"
  by (induction xs) auto

lemma update_with_baseline_switch:
  assumes b: "getAttribute el (str ''data-original-html'') = Some h" "h \<noteq> []"
    and u: "updatePriceElement s el = Inr el'"
  shows "updatePriceElement s' el' = updatePriceElement s' el"
proof (cases "isNaN (parseFloat_attr (getAttribute el (str ''data-price'')))")
  case True
  then show ?thesis using u by (simp add: updatePriceElement_def)
next
  case False
  then obtain conv where c: "convertAmount s (parseFloat_attr (getAttribute el (str ''data-price''))) = Inr conv"
    using u by (auto simp add: updatePriceElement_def Let_def split: sum.splits)
  define x where "x = replace_all worded_amount
               (formatted conv @ str '' '' @ to_string (get_name (currencies (code conv))))
               (replace_all dollar_amount (formatted conv) h)"
  have el': "el' = setAttribute (el\<lparr>innerHTML := x\<rparr>) (str ''data-currency'') (code conv)"
    using u False c b by (simp add: updatePriceElement_def Let_def x_def)
  have p: "getAttribute el' (str ''data-price'') = getAttribute el (str ''data-price'')"
    and o: "getAttribute el' (str ''data-original-html'') = Some h"
    using b by (simp_all add: el' getAttribute_setAttribute attribute_names_differ)
  have r: "setAttribute (el'\<lparr>innerHTML := y\<rparr>) (str ''data-currency'') w
             = setAttribute (el\<lparr>innerHTML := y\<rparr>) (str ''data-currency'') w" for y w
    by (simp add: el' setAttribute_def set_attr_overwrite)
  show ?thesis
    using False b
    by (simp add: updatePriceElement_def Let_def p o r split: sum.splits)
qed

text \<open>
  C1 at a page with one element of class \<^verbatim>\<open>price\<close> and the text \<^verbatim>\<open>$10\<close>.
  The first scan, with \<^verbatim>\<open>ZAR\<close> preferred, tags it with the base price 10,
  keeps the text under \<^verbatim>\<open>data-original-text\<close> and shows \<^verbatim>\<open>R145.00\<close>. No
  attribute \<^verbatim>\<open>data-original-html\<close> is ever written, so the scan after the
  switch to \<^verbatim>\<open>JPY\<close> substitutes into the content already shown, finds no
  dollar price there and leaves \<^verbatim>\<open>R145.00\<close>; the conversion of the base
  amount under \<^verbatim>\<open>JPY\<close> is U+00A5 \<^verbatim>\<open>1,100.00\<close>.
\<close>

theorem resync_after_switch_keeps_old_price:
  "contents (processPageElements (persisted (str ''ZAR'')) [labelled (str ''$10'')])
     = Inr [str ''R145.00''] \<and>
   map_sum id (map attrs)
       (processPageElements (persisted (str ''ZAR'')) [labelled (str ''$10'')])
     = Inr [[(str ''data-price'', str ''10''), (str ''data-original-text'', str ''$10''),
             (str ''data-currency'', str ''ZAR'')]] \<and>
   contents (rescan (processPageElements (persisted (str ''ZAR'')) [labelled (str ''$10'')])
               (persisted (str ''JPY'')))
     = Inr [str ''R145.00''] \<and>
   contents (processPageElements (persisted (str ''JPY'')) [labelled (str ''$10'')])
     = Inr [0xA5 # str ''1,100.00'']"
  by code_simp

text \<open>
  C2 at an element tagged with the base price 2000 and showing \<^verbatim>\<open>$2000\<close>, the
  stores empty (so the default \<^verbatim>\<open>USD\<close> applies) and unchanged: the first call
  shows \<^verbatim>\<open>$2,000.00\<close>; the second call finds \<^verbatim>\<open>$2\<close> in that content and
  replaces it again.
\<close>

theorem second_update_differs:
  "shown (updatePriceElement fresh_env (tagged (str ''2000'') (str ''$2000'')))
     = Inr (str ''$2,000.00'') \<and>
   shown (and_then (updatePriceElement fresh_env (tagged (str ''2000'') (str ''$2000''))) fresh_env)
     = Inr (str ''$2,000.00,000.00'')"
  by code_simp

section \<open>Extraction from text\<close>

lemma find_map_Suc: "find P (map Suc xs) = map_option Suc (find (\<lambda>i. P (Suc i)) xs)"
  by (induction xs) auto

lemma upt_Cons_map: "[0..<Suc n] = 0 # map Suc [0..<n]"
  by (simp add: upt_conv_Cons map_Suc_upt del: upt_Suc)

lemma leftmost_Nil: "leftmost m [] = None"
  by (simp add: leftmost_def)

lemma leftmost_Cons:
  "leftmost m (c # cs) =
     (if m (c # cs) \<noteq> None then Some 0 else map_option Suc (leftmost m cs))"
  by (simp add: leftmost_def upt_Cons_map find_map_Suc del: upt_Suc)

lemma first_match_leftmost:
  "first_match m t = (case leftmost m t of None \<Rightarrow> None | Some i \<Rightarrow> m (drop i t))"
  by (induction t) (auto simp: leftmost_Nil leftmost_Cons split: option.splits)

lemma first_match_None_iff: "first_match m t = None \<longleftrightarrow> leftmost m t = None"
  by (induction t) (auto simp: leftmost_Nil leftmost_Cons split: option.splits)

lemma first_match_group1:
  "(case first_match m t of Some r \<Rightarrow> group1 r | None \<Rightarrow> None) = numeral_at_leftmost m t"
  by (auto simp: first_match_leftmost numeral_at_leftmost_def split: option.splits)

lemma extractPriceFromText_two_steps: "extractPriceFromText t = extract_symbol_first t"
proof (cases "leftmost dollar_numeral t")
  case None
  then have "first_match dollar_numeral t = None"
    by (simp add: first_match_None_iff)
  then show ?thesis
    using None first_match_group1 [of worded_amount t]
    by (simp add: extractPriceFromText_def extract_symbol_first_def)
next
  case (Some i)
  then have "first_match dollar_numeral t \<noteq> None"
    by (simp add: first_match_None_iff)
  then show ?thesis
    using Some first_match_group1 [of dollar_numeral t]
    by (auto simp add: extractPriceFromText_def extract_symbol_first_def)
qed

text \<open>
  C9, as the code has it. The extraction is total. It looks for the
  symbol-prefixed pattern over the whole text first and returns the numeral of
  its leftmost match; only a text without such a match is searched for a numeral
  followed by a currency word; \<^verbatim>\<open>null\<close> (\<open>None\<close>) is the result when neither
  is found. The numeral comes back as the matched string: \<^verbatim>\<open>42.00\<close> for
  \<^verbatim>\<open>Price: $42.00 today\<close>.
\<close>

theorem extractPriceFromText_symbol_first:
  "extractPriceFromText t = extract_symbol_first t \<and>
   extractPriceFromText (str ''Price: $42.00 today'') = Some (str ''42.00'') \<and>
   extractPriceFromText (str ''no price here'') = None"
proof -
  have "extractPriceFromText (str ''Price: $42.00 today'') = Some (str ''42.00'')"
    by code_simp
  moreover have "extractPriceFromText (str ''no price here'') = None"
    by code_simp
  ultimately show ?thesis
    using extractPriceFromText_two_steps [of t] by simp
qed

text \<open>
  C9 as stated fails: in \<^verbatim>\<open>5 USD or $7\<close> the first match of either pattern
  from the left is \<^verbatim>\<open>5 USD\<close>, but the code returns \<^verbatim>\<open>7\<close>.
\<close>

theorem extractPriceFromText_not_first_of_either_counterexample:
  "extract_first_of_either (str ''5 USD or $7'') = Some (str ''5'') \<and>
   extractPriceFromText (str ''5 USD or $7'') = Some (str ''7'')"
  by code_simp

section \<open>Attribute values that are no numbers\<close>

lemma to_double_not_NaN: "to_double p q \<noteq> NaN"
  by (simp add: to_double_def Let_def)

lemma isNaN_iff: "isNaN x \<longleftrightarrow> x = NaN"
  by (cases x) simp_all

lemma point_not_digit: "\<not> is_digit 0x2E"
  by simp

lemma takeWhile_Nil_iff:
  "takeWhile P xs = [] \<longleftrightarrow> (case xs of [] \<Rightarrow> True | x # _ \<Rightarrow> \<not> P x)"
  by (cases xs) simp_all

lemma unsigned_literal_NaN: "unsigned_literal neg s = NaN \<longleftrightarrow> \<not> literal_start s"
proof (cases "starts_with (str ''Infinity'') s")
  case True
  then show ?thesis
    by (simp add: unsigned_literal_def literal_start_def)
next
  case False
  show ?thesis
  proof (cases s)
    case Nil
    then show ?thesis
      using False by (simp add: unsigned_literal_def literal_start_def)
  next
    case (Cons c r)
    show ?thesis
    proof (cases "is_digit c")
      case True
      then show ?thesis
        using False Cons
        by (simp add: unsigned_literal_def literal_start_def Let_def to_double_not_NaN
              del: is_digit.simps)
    next
      case nd: False
      then show ?thesis
        using False Cons point_not_digit
        by (cases r)
           (auto simp add: unsigned_literal_def literal_start_def Let_def to_double_not_NaN
              takeWhile_Nil_iff simp del: is_digit.simps split: list.splits)
    qed
  qed
qed

text \<open>\<^verbatim>\<open>parseFloat\<close> gives \<^verbatim>\<open>NaN\<close> exactly for the values without a numeric
  prefix.\<close>

lemma parseFloat_NaN: "isNaN (parseFloat v) \<longleftrightarrow> \<not> numeric_prefix v"
proof (cases "dropWhile is_space v")
  case Nil
  show ?thesis
    unfolding parseFloat_def numeric_prefix_def Nil by simp
next
  case (Cons c r)
  show ?thesis
    unfolding parseFloat_def numeric_prefix_def Cons
    by (simp add: isNaN_iff unsigned_literal_NaN)
qed

lemma null_not_numeric: "\<not> numeric_prefix (str ''null'')"
  by (simp add: numeric_prefix_def literal_start_def str_def)

lemma parseFloat_attr_NaN: "isNaN (parseFloat_attr a) \<longleftrightarrow> unparseable a"
  by (cases a) (simp_all add: parseFloat_attr_def unparseable_def parseFloat_NaN null_not_numeric)

text \<open>
  C8, as the code has it. The base price is \<^verbatim>\<open>NaN\<close> exactly when the
  attribute \<^verbatim>\<open>data-price\<close> is missing or its value, after leading white space
  and an optional sign, does not start with a decimal literal; then
  \<^verbatim>\<open>updatePriceElement\<close> returns at once: no conversion, no rewrite, no
  exception, the element as it was.
\<close>

theorem updatePriceElement_skips_unparseable:
  "(isNaN (parseFloat_attr (getAttribute el (str ''data-price'')))
      \<longleftrightarrow> unparseable (getAttribute el (str ''data-price''))) \<and>
   (unparseable (getAttribute el (str ''data-price'')) \<longrightarrow> updatePriceElement s el = Inr el)"
  by (simp add: parseFloat_attr_NaN updatePriceElement_def)

theorem updatePriceElement_skips_unparseable_witness:
  "unparseable (getAttribute (tagged (str ''abc'') (str ''$5'')) (str ''data-price'')) \<and>
   updatePriceElement (persisted (str ''JPY'')) (tagged (str ''abc'') (str ''$5''))
     = Inr (tagged (str ''abc'') (str ''$5''))"
proof -
  have h: "unparseable (getAttribute (tagged (str ''abc'') (str ''$5'')) (str ''data-price''))"
    by code_simp
  show ?thesis
    using h updatePriceElement_skips_unparseable
            [of "tagged (str ''abc'') (str ''$5'')" "persisted (str ''JPY'')"]
    by simp
qed

text \<open>
  C8 as stated fails: the negative numeral \<^verbatim>\<open>-5\<close> is read as the number -5,
  and the element is converted and rewritten (with \<^verbatim>\<open>JPY\<close> preferred, to
  U+00A5 \<^verbatim>\<open>-550.00\<close>).
\<close>

theorem updatePriceElement_negative_price_counterexample:
  "\<not> isNaN (parseFloat_attr (Some (str ''-5''))) \<and>
   shown (updatePriceElement (persisted (str ''JPY'')) (tagged (str ''-5'') (str ''$5'')))
     = Inr (0xA5 # str ''-550.00'')"
  by code_simp

section \<open>The mutation observer\<close>

lemma synchronized_in_append:
  "synchronized_in s el rs \<Longrightarrow> synchronized_in s el (a @ rs @ b)"
  by (auto simp: synchronized_in_def list_ex_iff)

lemma covered_append: "covered s n rs \<Longrightarrow> covered s n (a @ rs @ b)"
  by (cases n)
     (auto simp: covered_def list_all_iff simp del: query_data_price.simps
           intro: synchronized_in_append)

lemma update_each_covers:
  "update_each s els = Inr rs \<Longrightarrow> d \<in> set els \<Longrightarrow> synchronized_in s d rs"
proof (induction els arbitrary: rs)
  case Nil
  then show ?case by simp
next
  case (Cons el els)
  then show ?case
    by (auto simp: synchronized_in_def list_ex_iff split: sum.splits)
qed

lemma on_added_node_covers: "on_added_node s n = Inr r \<Longrightarrow> covered s n r"
proof (cases n)
  case (Element el cs)
  assume r: "on_added_node s n = Inr r"
  show ?thesis
  proof (cases "hasAttribute el (str ''data-price'')")
    case True
    then have "update_each s [el] = Inr r"
      using r Element by (simp add: on_added_node_def)
    then have "synchronized_in s el r"
      by (rule update_each_covers) simp
    then show ?thesis
      using True Element by (simp add: covered_def)
  next
    case False
    then have "update_each s (query_data_price n) = Inr r"
      using r Element by (simp add: on_added_node_def)
    then have "\<forall>d \<in> set (query_data_price n). synchronized_in s d r"
      using update_each_covers by blast
    then show ?thesis
      using False Element by (simp add: covered_def list_all_iff del: query_data_price.simps)
  qed
qed (simp_all add: covered_def)

lemma on_added_nodes_covers:
  "on_added_nodes s ns = Inr rs \<Longrightarrow> n \<in> set ns \<Longrightarrow> covered s n rs"
proof (induction ns arbitrary: rs)
  case Nil
  then show ?case by simp
next
  case (Cons a ns)
  from Cons.prems(1) obtain r rs' where
    r: "on_added_node s a = Inr r" and rs': "on_added_nodes s ns = Inr rs'" and eq: "rs = r @ rs'"
    by (auto split: sum.splits)
  show ?case
  proof (cases "n = a")
    case True
    then show ?thesis
      using on_added_node_covers [OF r] covered_append [of s a r "[]" rs'] eq by simp
  next
    case False
    then have "covered s n rs'" using Cons.IH [OF rs'] Cons.prems(2) by simp
    then show ?thesis
      using covered_append [of s n rs' r "[]"] eq by simp
  qed
qed

lemma observer_callback_covers:
  "observer_callback s ms = Inr rs \<Longrightarrow> m \<in> set ms \<Longrightarrow> n \<in> set (addedNodes m)
     \<Longrightarrow> covered s n rs"
proof (induction ms arbitrary: rs)
  case Nil
  then show ?case by simp
next
  case (Cons a ms)
  from Cons.prems(1) obtain r rs' where
    r: "on_added_nodes s (addedNodes a) = Inr r" and rs': "observer_callback s ms = Inr rs'"
    and eq: "rs = r @ rs'"
    by (auto split: sum.splits)
  show ?case
  proof (cases "m = a")
    case True
    then show ?thesis
      using on_added_nodes_covers [OF r, of n] covered_append [of s n r "[]" rs'] eq Cons.prems(3)
      by simp
  next
    case False
    then have "covered s n rs'" using Cons.IH [OF rs'] Cons.prems(2,3) by simp
    then show ?thesis
      using covered_append [of s n rs' r "[]"] eq by simp
  qed
qed

lemma formatCurrency_returns: "currencies c \<noteq> Undefined \<Longrightarrow> \<exists>f. formatCurrency x c = Inr f"
  by (cases "currencies c") (simp_all add: formatCurrency_def)

lemma convertAmount_returns:
  "currencies (getUserCurrency s) \<noteq> Undefined \<Longrightarrow> \<exists>c. convertAmount s x = Inr c"
  using formatCurrency_returns [of "getUserCurrency s"]
  by (cases "currencies (getUserCurrency s)")
     (auto simp add: convertAmount_def Let_def split: sum.splits, (metis Inl_Inr_False)+)

lemma updatePriceElement_returns:
  "currencies (getUserCurrency s) \<noteq> Undefined \<Longrightarrow> \<exists>r. updatePriceElement s el = Inr r"
  using convertAmount_returns [of s]
  by (auto simp add: updatePriceElement_def Let_def split: sum.splits) (metis Inl_Inr_False)

lemma update_each_returns:
  "currencies (getUserCurrency s) \<noteq> Undefined \<Longrightarrow> \<exists>rs. update_each s els = Inr rs"
proof (induction els)
  case Nil
  then show ?case by simp
next
  case (Cons el els)
  then show ?case
    using updatePriceElement_returns [of s el] by (auto split: sum.splits)
qed

lemma on_added_node_returns:
  "currencies (getUserCurrency s) \<noteq> Undefined \<Longrightarrow> \<exists>rs. on_added_node s n = Inr rs"
  using update_each_returns [of s]
  by (cases n) (auto simp: on_added_node_def simp del: update_each.simps)

lemma on_added_nodes_returns:
  "currencies (getUserCurrency s) \<noteq> Undefined \<Longrightarrow> \<exists>rs. on_added_nodes s ns = Inr rs"
proof (induction ns)
  case Nil
  then show ?case by simp
next
  case (Cons n ns)
  then show ?case
    using on_added_node_returns [of s n] by (auto split: sum.splits)
qed

lemma observer_callback_returns:
  "currencies (getUserCurrency s) \<noteq> Undefined \<Longrightarrow> \<exists>rs. observer_callback s ms = Inr rs"
proof (induction ms)
  case Nil
  then show ?case by simp
next
  case (Cons m ms)
  then show ?case
    using on_added_nodes_returns [of s "addedNodes m"] by (auto split: sum.splits)
qed

text \<open>
  C7, as the code has it. The observer recognises the attribute \<^verbatim>\<open>data-price\<close>
  only. When the preference resolves to a member of the currency table no call
  throws and the callback returns. Whenever it returns, every added element node
  that has the attribute has had \<^verbatim>\<open>updatePriceElement\<close> called on it, and for
  an added element node without the attribute the call was made on every
  descendant that has the attribute.
\<close>

theorem observer_synchronizes_tagged:
  "(currencies (getUserCurrency s) \<noteq> Undefined \<longrightarrow> (\<exists>rs. observer_callback s ms = Inr rs)) \<and>
   (observer_callback s ms = Inr rs \<and> m \<in> set ms \<and> n \<in> set (addedNodes m)
      \<longrightarrow> covered s n rs)"
  using observer_callback_returns [of s ms] observer_callback_covers [of s ms rs m n]
  by blast

theorem observer_synchronizes_tagged_witness:
  "currencies (getUserCurrency (persisted (str ''JPY''))) \<noteq> Undefined \<and>
   observer_callback (persisted (str ''JPY'')) batch = Inr batch_results \<and>
   hd batch \<in> set batch \<and> wrapper \<in> set (addedNodes (hd batch)) \<and>
   covered (persisted (str ''JPY'')) wrapper batch_results"
proof -
  have h1: "currencies (getUserCurrency (persisted (str ''JPY''))) \<noteq> Undefined"
    by code_simp
  have h2: "observer_callback (persisted (str ''JPY'')) batch = Inr batch_results"
    by code_simp
  have h3: "hd batch \<in> set batch" "wrapper \<in> set (addedNodes (hd batch))"
    by (simp_all add: batch_def)
  show ?thesis
    using h1 h2 h3
      observer_synchronizes_tagged
        [of "persisted (str ''JPY'')" batch batch_results "hd batch" wrapper]
    by blast
qed

text \<open>
  C7 as stated fails: an added element without the attribute whose text holds a
  price is price-bearing by the recognition contract, but the observer makes no
  call at all for it.
\<close>

theorem observer_misses_untagged_price_counterexample:
  "price_bearing (labelled (str ''$5'')) \<and>
   observer_callback fresh_env [\<lparr>addedNodes = [Element (labelled (str ''$5'')) []]\<rparr>] = Inr []"
  by code_simp

text \<open>The descendants of an added element that has the attribute itself are not
  visited either: here the inner element gets no call.\<close>

lemma observer_skips_inside_tagged:
  "map_sum id (map attrs)
     (observer_callback fresh_env
        [\<lparr>addedNodes = [Element (tagged (str ''7'') (str ''x'')) [Element (tagged (str ''5'') (str ''$5'')) []]]\<rparr>])
     = Inr [[(str ''data-price'', str ''7''), (str ''data-currency'', str ''USD'')]]"
  by code_simp

section \<open>Formatting\<close>

declare is_digit.simps [simp del] is_word.simps [simp del]

lemma digit_char_is_digit: "0 \<le> d \<Longrightarrow> d < 10 \<Longrightarrow> is_digit (digit_char d)"
proof -
  assume "0 \<le> d" "d < 10"
  then have "d = 0 \<or> d = 1 \<or> d = 2 \<or> d = 3 \<or> d = 4 \<or> d = 5 \<or> d = 6 \<or> d = 7 \<or> d = 8 \<or> d = 9"
    by arith
  then show ?thesis by (auto simp: digit_char_def is_digit.simps)
qed

lemma digits_small: "n < 10 \<Longrightarrow> digits n = [digit_char n]"
  by (simp add: digits.simps)

lemma digits_step: "10 \<le> n \<Longrightarrow> digits n = digits (n div 10) @ [digit_char (n mod 10)]"
  by (subst digits.simps) simp

lemma digits_not_Nil: "digits n \<noteq> []"
  by (subst digits.simps) simp

lemma digits_all_digit: "0 \<le> n \<Longrightarrow> list_all is_digit (digits n)"
proof (induction n rule: digits.induct)
  case (1 n)
  show ?case
  proof (cases "n < 10")
    case True
    then show ?thesis using "1.prems" digit_char_is_digit [of n]
      by (simp add: digits_small)
  next
    case False
    then have "list_all is_digit (digits (n div 10))" using 1 by (simp)
    moreover have "is_digit (digit_char (n mod 10))"
      by (rule digit_char_is_digit) simp_all
    ultimately show ?thesis using False
      by (simp add: digits_step)
  qed
qed

lemma fixed_point_digits:
  assumes "0 \<le> n"
  shows "(let ds = digits n; ds' = replicate (3 - length ds) 0x30 @ ds
          in take (length ds' - 2) ds' @ str ''.'' @ drop (length ds' - 2) ds')
         = digits (n div 100) @ str ''.'' @ [digit_char (n mod 100 div 10), digit_char (n mod 10)]"
proof -
  consider "n < 10" | "10 \<le> n" "n < 100" | "100 \<le> n" by linarith
  then show ?thesis
  proof cases
    case 1
    then show ?thesis using assms
      by (simp add: digits_small digit_char_def numeral_3_eq_3)
  next
    case 2
    then have "digits n = [digit_char (n div 10), digit_char (n mod 10)]"
      by (simp add: digits_step digits_small)
    moreover have "n div 100 = 0" "n mod 100 = n" using 2 by simp_all
    ultimately show ?thesis
      by (simp add: digits_small digit_char_def numeral_3_eq_3)
  next
    case 3
    then have a: "digits n = digits (n div 10) @ [digit_char (n mod 10)]"
      by (simp add: digits_step)
    have "10 \<le> n div 10" using 3 by simp
    then have b: "digits (n div 10) = digits (n div 10 div 10) @ [digit_char (n div 10 mod 10)]"
      by (rule digits_step)
    have c: "n div 10 div 10 = n div 100" by (simp add: div_mult2_eq [symmetric])
    have "n mod 100 = 10 * (n div 10 mod 10) + n mod 10"
      using zmod_zmult2_eq [of 10 n 10] by simp
    then have d: "n mod 100 div 10 = n div 10 mod 10" by simp
    have e: "digits n = digits (n div 100) @ [digit_char (n mod 100 div 10), digit_char (n mod 10)]"
      unfolding a b c d by simp
    have "digits (n div 100) \<noteq> []" by (rule digits_not_Nil)
    then have "1 \<le> length (digits (n div 100))"
      by (simp add: Suc_le_eq)
    then show ?thesis
      unfolding e Let_def by simp
  qed
qed

lemma dvd3_steps:
  "3 dvd Suc (Suc (Suc n)) \<longleftrightarrow> 3 dvd n"
  "3 dvd 4 + n \<longleftrightarrow> 3 dvd Suc n"
  "3 dvd 3 + n \<longleftrightarrow> 3 dvd n"
  "\<not> 3 dvd Suc 0" "\<not> 3 dvd Suc (Suc 0)" "\<not> 3 dvd (2::nat)" "\<not> 3 dvd (1::nat)"
  by presburger+

lemma group_rev_snoc:
  "group_rev (xs @ [d]) = group_rev xs @ (if xs \<noteq> [] \<and> 3 dvd length xs then [0x2C, d] else [d])"
proof (induction xs rule: group_rev.induct)
  case (1 a b c e r)
  then show ?case by (simp add: dvd3_steps)
qed (simp_all add: dvd3_steps)

lemma group3_Cons: "group3 (d # ds) = d # sep ds @ group3 ds"
  by (simp add: group3_def sep_def group_rev_snoc)

lemma groups_ahead_D:
  "groups_ahead s \<Longrightarrow> 3 \<le> length s \<and> list_all is_digit (take 3 s)"
  by (cases s rule: groups_ahead.cases) (simp_all add: numeral_3_eq_3)

lemma groups_ahead_run:
  assumes "list_all is_digit ds" and "case r of [] \<Rightarrow> True | x # _ \<Rightarrow> \<not> is_digit x"
  shows "groups_ahead (ds @ r) \<longleftrightarrow> ds \<noteq> [] \<and> 3 dvd length ds"
  using assms
proof (induction ds rule: groups_ahead.induct)
  case (1 a b c rest)
  then show ?case
    by (cases rest) (auto simp add: dvd3_steps split: list.splits)
qed (auto simp add: dvd3_steps dest!: groups_ahead_D split: list.splits)

lemma digit_is_word: "is_digit c \<Longrightarrow> is_word c"
  by (simp add: is_word.simps)

lemma not_digit_simps: "\<not> is_digit 0x2E" "\<not> is_digit 0x2D" "\<not> is_word 0x2E" "\<not> is_word 0x2D"
  by (simp_all add: is_digit.simps is_word.simps)

lemma insert_commas_run:
  assumes "list_all is_digit ds" and "case r of [] \<Rightarrow> True | x # _ \<Rightarrow> \<not> is_digit x"
    and "is_word q"
  shows "insert_commas (Some q) (ds @ r) = sep ds @ group3 ds @ insert_commas (Some (last (q # ds))) r"
  using assms
proof (induction ds arbitrary: q)
  case Nil
  then show ?case by (simp add: sep_def group3_def)
next
  case (Cons d ds)
  have d: "is_digit d" and ds: "list_all is_digit ds"
    using Cons.prems(1) by simp_all
  have w: "is_word d" using d by (rule digit_is_word)
  have g: "groups_ahead (d # ds @ r) \<longleftrightarrow> 3 dvd length (d # ds)"
    using groups_ahead_run [of "d # ds" r] Cons.prems(1,2) by simp
  have ih: "insert_commas (Some d) (ds @ r)
              = sep ds @ group3 ds @ insert_commas (Some (last (d # ds))) r"
    using Cons.IH [OF ds Cons.prems(2) w] .
  have "insert_commas (Some q) ((d # ds) @ r)
          = sep (d # ds) @ d # insert_commas (Some d) (ds @ r)"
    using g w Cons.prems(3) by (simp add: sep_def str_def del: groups_ahead.simps)
  then show ?case
    by (simp add: ih group3_Cons)
qed

lemma insert_commas_first:
  assumes "list_all is_digit (d # ds)" and "case r of [] \<Rightarrow> True | x # _ \<Rightarrow> \<not> is_digit x"
    and "case p of None \<Rightarrow> True | Some q \<Rightarrow> \<not> is_word q"
  shows "insert_commas p ((d # ds) @ r) = group3 (d # ds) @ insert_commas (Some (last (d # ds))) r"
proof -
  have d: "is_digit d" and ds: "list_all is_digit ds"
    using assms(1) by simp_all
  have w: "is_word d" using d by (rule digit_is_word)
  have "\<not> non_boundary p (Some d)"
    using w assms(3) by (cases p) simp_all
  then have "insert_commas p ((d # ds) @ r) = d # insert_commas (Some d) (ds @ r)"
    by (simp del: non_boundary.simps groups_ahead.simps)
  then show ?thesis
    using insert_commas_run [OF ds assms(2) w] by (simp add: group3_Cons)
qed

lemma insert_commas_fraction:
  assumes "is_digit q" "is_digit a" "is_digit b"
  shows "insert_commas (Some q) (str ''.'' @ [a, b]) = str ''.'' @ [a, b]"
  using assms by (simp add: str_def not_digit_simps digit_is_word)

lemma insert_commas_number:
  assumes "list_all is_digit ds" "ds \<noteq> []" "is_digit a" "is_digit b"
  shows "insert_commas None (ds @ str ''.'' @ [a, b]) = group3 ds @ str ''.'' @ [a, b]"
    and "insert_commas None (str ''-'' @ ds @ str ''.'' @ [a, b]) = str ''-'' @ group3 ds @ str ''.'' @ [a, b]"
proof -
  obtain d ds' where eq: "ds = d # ds'" using assms(2) by (cases ds) auto
  have r: "case str ''.'' @ [a, b] of [] \<Rightarrow> True | x # _ \<Rightarrow> \<not> is_digit x"
    by (simp add: str_def not_digit_simps)
  have l: "is_digit (last (d # ds'))"
    using assms(1) eq by (metis assms(2) last_in_set list_all_iff)
  have f: "insert_commas (Some (last (d # ds'))) (str ''.'' @ [a, b]) = str ''.'' @ [a, b]"
    using l assms(3,4) by (rule insert_commas_fraction)
  show "insert_commas None (ds @ str ''.'' @ [a, b]) = group3 ds @ str ''.'' @ [a, b]"
    using insert_commas_first [of d ds' "str ''.'' @ [a, b]" None] assms(1) r f
    unfolding eq by simp
  have m: "\<not> groups_ahead (str ''-'' @ ds @ str ''.'' @ [a, b])"
    using groups_ahead_D [of "str ''-'' @ ds @ str ''.'' @ [a, b]"]
    by (auto simp add: str_def not_digit_simps)
  have "insert_commas None (str ''-'' @ ds @ str ''.'' @ [a, b])
          = str ''-'' @ insert_commas (Some 0x2D) (ds @ str ''.'' @ [a, b])"
    using m by (simp add: str_def del: groups_ahead.simps)
  also have "insert_commas (Some 0x2D) (ds @ str ''.'' @ [a, b]) = group3 ds @ str ''.'' @ [a, b]"
    using insert_commas_first [of d ds' "str ''.'' @ [a, b]" "Some 0x2D"] assms(1) r f
    unfolding eq by (simp add: not_digit_simps)
  finally show "insert_commas None (str ''-'' @ ds @ str ''.'' @ [a, b]) = str ''-'' @ group3 ds @ str ''.'' @ [a, b]" .
qed

lemma abs_value_of:
  "\<bar>value_of (Finite m e)\<bar>
     = of_int (if 0 \<le> e then \<bar>m\<bar> * 2 ^ nat e else \<bar>m\<bar>)
       / of_int (if 0 \<le> e then 1 else 2 ^ nat (- e))"
  by (simp add: abs_mult)

lemma hundredths_Finite:
  fixes m e :: int
  defines "a \<equiv> (if 0 \<le> e then \<bar>m\<bar> * 2 ^ nat e else \<bar>m\<bar>)"
    and "b \<equiv> (if 0 \<le> e then 1 else 2 ^ nat (- e))"
  shows "hundredths (Finite m e) = (200 * a + b) div (2 * b)"
proof -
  have b: "0 < b" by (simp add: b_def)
  have "100 * \<bar>value_of (Finite m e)\<bar> + 1 / 2 = 100 * (of_int a / of_int b) + 1 / (2 :: rat)"
    unfolding abs_value_of a_def b_def ..
  also have "\<dots> = of_int (200 * a + b) / of_int (2 * b)"
    using b by (simp add: field_simps)
  finally show ?thesis
    unfolding hundredths_def by (simp only: floor_divide_of_int_eq)
qed

lemma below_1e21_Finite:
  fixes m e :: int
  defines "a \<equiv> (if 0 \<le> e then \<bar>m\<bar> * 2 ^ nat e else \<bar>m\<bar>)"
    and "b \<equiv> (if 0 \<le> e then 1 else 2 ^ nat (- e))"
  shows "below_1e21 (Finite m e) \<longleftrightarrow> \<not> 10 ^ 21 * b \<le> a"
proof -
  have b: "0 < b" by (simp add: b_def)
  have "below_1e21 (Finite m e) \<longleftrightarrow> (of_int a / of_int b :: rat) < 10 ^ 21"
    unfolding below_1e21.simps abs_value_of a_def b_def ..
  also have "\<dots> \<longleftrightarrow> (of_int a :: rat) < of_int (10 ^ 21 * b)"
    using b by (simp add: field_simps)
  also have "\<dots> \<longleftrightarrow> a < 10 ^ 21 * b"
    by (simp only: of_int_less_iff)
  finally show ?thesis by auto
qed

lemma tens_digit_bound: "0 \<le> x \<Longrightarrow> x < 100 \<Longrightarrow> x div 10 < (10::int)"
  by arith

lemma hundredths_nonneg: "0 \<le> hundredths x"
  unfolding hundredths_def by simp

lemma value_negative: "value_of (Finite m e) < 0 \<longleftrightarrow> m < 0"
  by (simp add: mult_less_0_iff)

lemma toFixed_fixed:
  assumes "below_1e21 (Finite m e)"
  shows "toFixed (Finite m e)
           = (if m < 0 then str ''-'' else [])
             @ digits (hundredths (Finite m e) div 100) @ str ''.''
             @ [digit_char (hundredths (Finite m e) mod 100 div 10),
                digit_char (hundredths (Finite m e) mod 10)]"
proof -
  define a where "a = (if 0 \<le> e then \<bar>m\<bar> * 2 ^ nat e else \<bar>m\<bar>)"
  define b :: int where "b = (if 0 \<le> e then 1 else 2 ^ nat (- e))"
  define n where "n = (200 * a + b) div (2 * b)"
  have h: "hundredths (Finite m e) = n"
    unfolding n_def a_def b_def by (rule hundredths_Finite)
  have small: "\<not> 10 ^ 21 * b \<le> a"
    using assms below_1e21_Finite [of m e] unfolding a_def b_def by blast
  have n0: "0 \<le> n" using hundredths_nonneg [of "Finite m e"] h by simp
  have "toFixed (Finite m e)
          = (if m < 0 then str ''-'' else [])
            @ (let ds = digits n; ds' = replicate (3 - length ds) 0x30 @ ds
               in take (length ds' - 2) ds' @ str ''.'' @ drop (length ds' - 2) ds')"
  proof (cases "0 \<le> e")
    case True
    then show ?thesis
      using small by (simp add: Let_def n_def a_def b_def)
  next
    case False
    then show ?thesis
      using small by (simp add: Let_def n_def a_def b_def)
  qed
  then show ?thesis
    unfolding h fixed_point_digits [OF n0] .
qed

lemma format_with_spec:
  assumes "below_1e21 x"
  shows "format_with (Entry cur) x = format_spec cur x"
proof (cases x)
  case (Finite m e)
  define h where "h = hundredths (Finite m e)"
  have h0: "0 \<le> h" unfolding h_def by (rule hundredths_nonneg)
  have ds: "list_all is_digit (digits (h div 100))" "digits (h div 100) \<noteq> []"
    using h0 by (simp_all add: digits_all_digit digits_not_Nil pos_imp_zdiv_nonneg_iff)
  have a: "is_digit (digit_char (h mod 100 div 10))"
    using tens_digit_bound [of "h mod 100"]
    by (intro digit_char_is_digit) (simp_all add: pos_imp_zdiv_nonneg_iff)
  have b: "is_digit (digit_char (h mod 10))"
    by (rule digit_char_is_digit) simp_all
  have t: "toFixed x = (if m < 0 then str ''-'' else [])
             @ digits (h div 100) @ str ''.'' @ [digit_char (h mod 100 div 10), digit_char (h mod 10)]"
    using toFixed_fixed assms unfolding Finite h_def by simp
  have "insert_commas None (toFixed x)
          = (if m < 0 then str ''-'' else [])
            @ group3 (digits (h div 100)) @ str ''.'' @ [digit_char (h mod 100 div 10), digit_char (h mod 10)]"
    unfolding t using insert_commas_number [OF ds a b] by simp
  then show ?thesis
    unfolding format_with_def format_spec_def Let_def h_def Finite
    by (simp add: value_negative del: value_of.simps)
qed (use assms in simp_all)


lemma formatCurrency_entry:
  "currencies c = Entry cur \<Longrightarrow> formatCurrency x c = Inr (format_with (Entry cur) x)"
  by (simp add: formatCurrency_def)

text \<open>
  C5, as the code has it. For every finite amount of magnitude below
  \<open>10 ^ 21\<close> the formatted text is the amount rounded to two decimal places
  (a half away from zero), with a comma every three digits leftwards from the
  decimal point, none in the fraction and none after a leading minus sign, and
  the currency symbol in front when the position is \<^verbatim>\<open>before\<close> and behind
  otherwise; for a code of the table \<^verbatim>\<open>formatCurrency\<close> returns exactly
  that, and \<^verbatim>\<open>formatCurrency(1234.5, "USD")\<close> is \<^verbatim>\<open>$1,234.50\<close>.
\<close>

theorem formatCurrency_grouped:
  "(below_1e21 x \<longrightarrow>
      format_with (Entry cur) x = format_spec cur x \<and>
      (currencies c = Entry cur \<longrightarrow> formatCurrency x c = Inr (format_spec cur x))) \<and>
   formatCurrency (to_double 12345 10) (str ''USD'') = Inr (str ''$1,234.50'')"
proof -
  have "formatCurrency (to_double 12345 10) (str ''USD'') = Inr (str ''$1,234.50'')"
    by code_simp
  then show ?thesis
    using format_with_spec [of x cur] formatCurrency_entry [of c cur x] by simp
qed

theorem formatCurrency_grouped_witness:
  "below_1e21 (to_double (- 12345678) 1000) \<and>
   format_with (Entry krona_like) (to_double (- 12345678) 1000) = str ''-12,345.68 kr'' \<and>
   currencies (str ''USD'') = Entry usd_like \<and>
   below_1e21 (to_double 12345 10) \<and>
   formatCurrency (to_double 12345 10) (str ''USD'') = Inr (format_spec usd_like (to_double 12345 10))"
proof -
  have h1: "below_1e21 (to_double (- 12345678) 1000)"
    by code_simp
  have h2: "format_spec krona_like (to_double (- 12345678) 1000) = str ''-12,345.68 kr''"
    by code_simp
  have h3: "currencies (str ''USD'') = Entry usd_like"
    by code_simp
  have h4: "below_1e21 (to_double 12345 10)"
    by code_simp
  show ?thesis
    using h1 h2 h3 h4
      formatCurrency_grouped [of "to_double (- 12345678) 1000" krona_like "str ''USD''"]
      formatCurrency_grouped [of "to_double 12345 10" usd_like "str ''USD''"]
    by simp
qed

text \<open>
  C5 as stated fails: from \<open>10 ^ 21\<close> on \<^verbatim>\<open>toFixed\<close> prints the amount in
  exponent notation, with no decimal places at all.
\<close>

theorem formatCurrency_large_amount_counterexample:
  "formatCurrency (to_double (10 ^ 21) 1) (str ''USD'') = Inr (str ''$1e+21'') \<and>
   format_spec usd_like (to_double (10 ^ 21) 1) = str ''$1,000,000,000,000,000,000,000.00''"
  by code_simp

end
